theory Spec2Isabelle
  imports Main "HOL-Library.Sublist"
begin

section \<open>JavaScript values as the handler sees them\<close>

text \<open>
  The worker in \<^verbatim>\<open>src/index.ts\<close> reads an untyped JSON document
  (\<^verbatim>\<open>await request.json()\<close>), inspects it with property reads, strict equality and
  truthiness tests, and answers with \<^verbatim>\<open>JSON.stringify\<close> of an object literal. The values
  it handles are therefore the values \<^verbatim>\<open>JSON.parse\<close> can produce, plus \<^verbatim>\<open>undefined\<close>
  (a property that is not there). An object is the list of its own properties in
  property order. Numbers are the integer-valued ones; strings are lists of 8-bit
  characters.
\<close>

datatype jsval =
    JUndefined
  | JNull
  | JBool bool
  | JNum int
  | JStr string
  | JArr "jsval list"
  | JObj "(string \<times> jsval) list"

text \<open>
  A thrown value. \<open>ErrorInst c m\<close> is an instance of \<^verbatim>\<open>Error\<close> (constructor name \<open>c\<close>,
  \<^verbatim>\<open>.message\<close> \<open>m\<close>): what \<^verbatim>\<open>fetch\<close>, \<^verbatim>\<open>response.json()\<close>, a failed property read
  and \<^verbatim>\<open>throw new Error(...)\<close> produce. \<open>NonError s\<close> is any other thrown value, kept
  as the text \<^verbatim>\<open>String(e)\<close> gives for it.
\<close>

datatype jsexn = ErrorInst string string | NonError string

fun instanceof_Error :: "jsexn \<Rightarrow> bool" where
  "instanceof_Error (ErrorInst c m) = True"
| "instanceof_Error (NonError s) = False"

text \<open>\<^verbatim>\<open>error instanceof Error ? error.message : String(error)\<close>\<close>

fun describe_error :: "jsexn \<Rightarrow> string" where
  "describe_error (ErrorInst c m) = m"
| "describe_error (NonError s) = s"

definition bind_exn :: "jsexn + 'a \<Rightarrow> ('a \<Rightarrow> jsexn + 'b) \<Rightarrow> jsexn + 'b" where
  "bind_exn m f = (case m of Inl e \<Rightarrow> Inl e | Inr x \<Rightarrow> f x)"

subsection \<open>Number to string\<close>

text \<open>
  Plain decimal digits, which is how JavaScript prints an integer of magnitude below
  \<open>10\<^sup>2\<^sup>1\<close>; from there on it switches to exponent form, which is not modelled. The
  numbers the handler itself prints are the error codes and an HTTP status.
\<close>

definition digit_char :: "nat \<Rightarrow> char" where
  "digit_char d = ''0123456789abcdef'' ! d"

fun digits :: "nat \<Rightarrow> string" where
  "digits n = (if n < 10 then [digit_char n] else digits (n div 10) @ [digit_char (n mod 10)])"

declare digits.simps [simp del]

definition show_int :: "int \<Rightarrow> string" where
  "show_int i = (if i < 0 then ''-'' @ digits (nat (- i)) else digits (nat i))"

subsection \<open>Truthiness, nullish values, property reads\<close>

text \<open>\<^verbatim>\<open>ToBoolean\<close>: the falsy values are \<^verbatim>\<open>undefined\<close>, \<^verbatim>\<open>null\<close>, \<^verbatim>\<open>false\<close>, \<^verbatim>\<open>0\<close> and \<^verbatim>\<open>""\<close>.\<close>

fun truthy :: "jsval \<Rightarrow> bool" where
  "truthy JUndefined = False"
| "truthy JNull = False"
| "truthy (JBool b) = b"
| "truthy (JNum n) = (n \<noteq> 0)"
| "truthy (JStr s) = (s \<noteq> [])"
| "truthy (JArr xs) = True"
| "truthy (JObj kvs) = True"

fun nullish :: "jsval \<Rightarrow> bool" where
  "nullish JUndefined = True"
| "nullish JNull = True"
| "nullish v = False"

definition sq :: string where
  "sq = [CHR 0x27]"

text \<open>
  \<^verbatim>\<open>v.k\<close> for the property names the handler reads (\<^verbatim>\<open>method\<close>, \<^verbatim>\<open>id\<close>, \<^verbatim>\<open>params\<close>,
  \<^verbatim>\<open>protocolVersion\<close>, \<^verbatim>\<open>name\<close>, \<^verbatim>\<open>arguments\<close>, \<^verbatim>\<open>query\<close>, \<^verbatim>\<open>variables\<close>): reading from
  \<^verbatim>\<open>undefined\<close> or \<^verbatim>\<open>null\<close> throws a TypeError; an object gives its own property or
  \<^verbatim>\<open>undefined\<close>; numbers, booleans, strings and arrays have none of these properties.
  The messages of the errors the engine throws are written as V8 words them; the
  handler only copies them into its answers.
\<close>

fun get_prop :: "jsval \<Rightarrow> string \<Rightarrow> jsexn + jsval" where
  "get_prop JUndefined k =
     Inl (ErrorInst ''TypeError'' (''Cannot read properties of undefined (reading '' @ sq @ k @ sq @ '')''))"
| "get_prop JNull k =
     Inl (ErrorInst ''TypeError'' (''Cannot read properties of null (reading '' @ sq @ k @ sq @ '')''))"
| "get_prop (JObj kvs) k = Inr (case map_of kvs k of None \<Rightarrow> JUndefined | Some v \<Rightarrow> v)"
| "get_prop v k = Inr JUndefined"

text \<open>\<^verbatim>\<open>v?.k\<close>: \<^verbatim>\<open>undefined\<close> when \<open>v\<close> is nullish, the property read otherwise.\<close>

definition get_prop_opt :: "jsval \<Rightarrow> string \<Rightarrow> jsval" where
  "get_prop_opt v k = (if nullish v then JUndefined else (case get_prop v k of Inl e \<Rightarrow> JUndefined | Inr x \<Rightarrow> x))"

subsection \<open>String conversion in template literals\<close>

fun join_with :: "string \<Rightarrow> string list \<Rightarrow> string" where
  "join_with sep [] = []"
| "join_with sep [x] = x"
| "join_with sep (x # y # ys) = x @ sep @ join_with sep (y # ys)"

text \<open>
  \<^verbatim>\<open>`${v}`\<close>, that is \<^verbatim>\<open>ToString(v)\<close>. An array joins the conversions of its elements
  with commas (\<^verbatim>\<open>undefined\<close> and \<^verbatim>\<open>null\<close> elements give the empty string). A parsed
  object prints as \<^verbatim>\<open>[object Object]\<close>, unless it has an own property \<^verbatim>\<open>toString\<close>:
  that property shadows \<^verbatim>\<open>Object.prototype.toString\<close>, is not callable, and
  \<^verbatim>\<open>valueOf\<close> gives no primitive either, so the conversion throws a TypeError.
\<close>

fun js_ToString :: "jsval \<Rightarrow> jsexn + string"
and js_ToString_elems :: "jsval list \<Rightarrow> jsexn + string list"
where
  "js_ToString JUndefined = Inr ''undefined''"
| "js_ToString JNull = Inr ''null''"
| "js_ToString (JBool b) = Inr (if b then ''true'' else ''false'')"
| "js_ToString (JNum n) = Inr (show_int n)"
| "js_ToString (JStr s) = Inr s"
| "js_ToString (JArr xs) =
     (case js_ToString_elems xs of Inl e \<Rightarrow> Inl e | Inr ss \<Rightarrow> Inr (join_with '','' ss))"
| "js_ToString (JObj kvs) =
     (if map_of kvs ''toString'' = None then Inr ''[object Object]''
      else Inl (ErrorInst ''TypeError'' ''Cannot convert object to primitive value''))"
| "js_ToString_elems [] = Inr []"
| "js_ToString_elems (x # xs) =
     (case (if nullish x then Inr [] else js_ToString x) of
        Inl e \<Rightarrow> Inl e
      | Inr s \<Rightarrow> (case js_ToString_elems xs of Inl e \<Rightarrow> Inl e | Inr ss \<Rightarrow> Inr (s # ss)))"

section \<open>\<^verbatim>\<open>JSON.stringify\<close>\<close>

text \<open>
  \<^verbatim>\<open>QuoteJSONString\<close>: the quotation mark and the backslash are escaped with a backslash,
  the control characters below 0x20 get their short escape or \<^verbatim>\<open>\u00XX\<close>, every other
  character stands for itself.
\<close>

definition quote_char :: "char \<Rightarrow> string" where
  "quote_char c =
     (if c = CHR 0x22 then [CHR 0x5C, CHR 0x22]
      else if c = CHR 0x5C then [CHR 0x5C, CHR 0x5C]
      else if c = CHR 0x08 then [CHR 0x5C, CHR ''b'']
      else if c = CHR 0x0C then [CHR 0x5C, CHR ''f'']
      else if c = CHR 0x0A then [CHR 0x5C, CHR ''n'']
      else if c = CHR 0x0D then [CHR 0x5C, CHR ''r'']
      else if c = CHR 0x09 then [CHR 0x5C, CHR ''t'']
      else if (of_char c :: nat) < 32
        then [CHR 0x5C, CHR ''u'', CHR ''0'', CHR ''0'',
              digit_char ((of_char c :: nat) div 16), digit_char ((of_char c :: nat) mod 16)]
      else [c])"

definition QuoteJSONString :: "string \<Rightarrow> string" where
  "QuoteJSONString s = [CHR 0x22] @ concat (map quote_char s) @ [CHR 0x22]"

text \<open>
  \<^verbatim>\<open>SerializeJSONProperty\<close> without indentation. \<open>None\<close> is the result \<^verbatim>\<open>undefined\<close>:
  an \<^verbatim>\<open>undefined\<close> property of an object is left out, an \<^verbatim>\<open>undefined\<close> array element
  is written \<^verbatim>\<open>null\<close>.
\<close>

fun ser :: "jsval \<Rightarrow> string option"
and ser_elems :: "jsval list \<Rightarrow> string list"
and ser_props :: "(string \<times> jsval) list \<Rightarrow> string list"
where
  "ser JUndefined = None"
| "ser JNull = Some ''null''"
| "ser (JBool b) = Some (if b then ''true'' else ''false'')"
| "ser (JNum n) = Some (show_int n)"
| "ser (JStr s) = Some (QuoteJSONString s)"
| "ser (JArr xs) = Some (''['' @ join_with '','' (ser_elems xs) @ '']'')"
| "ser (JObj kvs) = Some (''{'' @ join_with '','' (ser_props kvs) @ ''}'')"
| "ser_elems [] = []"
| "ser_elems (x # xs) = (case ser x of None \<Rightarrow> ''null'' | Some s \<Rightarrow> s) # ser_elems xs"
| "ser_props [] = []"
| "ser_props ((k, v) # kvs) =
     (case ser v of
        None \<Rightarrow> ser_props kvs
      | Some s \<Rightarrow> (QuoteJSONString k @ '':'' @ s) # ser_props kvs)"

text \<open>\<^verbatim>\<open>JSON.stringify(v)\<close> as a JavaScript value: a string, or \<^verbatim>\<open>undefined\<close>.\<close>

definition JSON_stringify :: "jsval \<Rightarrow> jsval" where
  "JSON_stringify v = (case ser v of None \<Rightarrow> JUndefined | Some s \<Rightarrow> JStr s)"

section \<open>HTTP messages and the upstream endpoint\<close>

text \<open>
  The inbound \<^verbatim>\<open>Request\<close>: its HTTP method and what \<^verbatim>\<open>await request.json()\<close> settles
  to, the parsed document or the exception thrown for a body that is not JSON.
\<close>

record request =
  req_method :: string
  req_json :: "jsexn + jsval"

text \<open>The \<^verbatim>\<open>Response\<close> the handler builds; \<open>None\<close> is the \<^verbatim>\<open>null\<close> body.\<close>

record response =
  res_status :: nat
  res_headers :: "(string \<times> string) list"
  res_body :: "string option"

text \<open>One call \<^verbatim>\<open>fetch(url, {method, headers, body})\<close> to the upstream.\<close>

record fetch_call =
  call_url :: string
  call_method :: string
  call_headers :: "(string \<times> string) list"
  call_body :: jsval

text \<open>
  The upstream's answer: its status, its \<^verbatim>\<open>ok\<close> flag, and what \<^verbatim>\<open>response.json()\<close>
  settles to.
\<close>

record upstream_response =
  up_status :: nat
  up_ok :: bool
  up_json :: "jsexn + jsval"

datatype fetch_outcome = Rejects jsexn | Resolves upstream_response

type_synonym upstream = "fetch_call \<Rightarrow> fetch_outcome"

section \<open>The forwarder: \<^verbatim>\<open>executeGraphQLQuery\<close>\<close>

definition GRAPHQL_ROOT :: string where
  "GRAPHQL_ROOT = ''http://api.catalysis-hub.org/graphql''"

text \<open>
  \<^verbatim>\<open>const data = { query }; if (variables) { data.variables = variables; }\<close>
\<close>

definition request_data :: "jsval \<Rightarrow> jsval \<Rightarrow> jsval" where
  "request_data query variables =
     JObj ((''query'', query) # (if truthy variables then [(''variables'', variables)] else []))"

definition graphql_call :: "jsval \<Rightarrow> jsval \<Rightarrow> fetch_call" where
  "graphql_call query variables =
     \<lparr> call_url = GRAPHQL_ROOT,
       call_method = ''POST'',
       call_headers = [(''Content-Type'', ''application/json''),
                       (''User-Agent'', ''MCPCatalysisHubServer/0.1.0'')],
       call_body = JSON_stringify (request_data query variables) \<rparr>"

text \<open>The \<^verbatim>\<open>try\<close> block: the call, the status check, the body.\<close>

definition executeGraphQLQuery_try :: "upstream \<Rightarrow> jsval \<Rightarrow> jsval \<Rightarrow> jsexn + jsval" where
  "executeGraphQLQuery_try up query variables =
     (case up (graphql_call query variables) of
        Rejects e \<Rightarrow> Inl e
      | Resolves response \<Rightarrow>
          if \<not> up_ok response
          then Inl (ErrorInst ''Error'' (''HTTP error! status: '' @ digits (up_status response)))
          else up_json response)"

definition errors_value :: "string \<Rightarrow> jsval" where
  "errors_value msg = JObj [(''errors'', JArr [JObj [(''message'', JStr msg)]])]"

text \<open>The \<^verbatim>\<open>catch (error)\<close> block.\<close>

definition executeGraphQLQuery_catch :: "jsexn \<Rightarrow> jsexn + jsval" where
  "executeGraphQLQuery_catch error =
     (if instanceof_Error error
      then Inr (errors_value (''HTTP Request Error connecting to Catalysis Hub: '' @ describe_error error))
      else Inr (errors_value (''An unexpected error occurred: '' @ describe_error error)))"

text \<open>
  The function: what it gives its caller (\<open>Inl\<close> would be an exception leaving it),
  and the upstream calls it made.
\<close>

definition executeGraphQLQuery :: "upstream \<Rightarrow> jsval \<Rightarrow> jsval \<Rightarrow> (jsexn + jsval) \<times> fetch_call list" where
  "executeGraphQLQuery up query variables =
     ((case executeGraphQLQuery_try up query variables of
         Inl error \<Rightarrow> executeGraphQLQuery_catch error
       | Inr v \<Rightarrow> Inr v),
      [graphql_call query variables])"

text \<open>
  \<^verbatim>\<open>MyMCP.executeGraphQLQuery\<close> of the agent variant of the worker: the same body, with
  the endpoint in a field of the class.
\<close>

definition MyMCP_GRAPHQL_ROOT :: string where
  "MyMCP_GRAPHQL_ROOT = ''http://api.catalysis-hub.org/graphql''"

definition MyMCP_executeGraphQLQuery :: "upstream \<Rightarrow> jsval \<Rightarrow> jsval \<Rightarrow> (jsexn + jsval) \<times> fetch_call list" where
  "MyMCP_executeGraphQLQuery up query variables =
     (let call = \<lparr> call_url = MyMCP_GRAPHQL_ROOT,
                    call_method = ''POST'',
                    call_headers = [(''Content-Type'', ''application/json''),
                                    (''User-Agent'', ''MCPCatalysisHubServer/0.1.0'')],
                    call_body = JSON_stringify (request_data query variables) \<rparr>
      in ((case (case up call of
                   Rejects e \<Rightarrow> Inl e
                 | Resolves response \<Rightarrow>
                     if \<not> up_ok response
                     then Inl (ErrorInst ''Error'' (''HTTP error! status: '' @ digits (up_status response)))
                     else up_json response) of
             Inl error \<Rightarrow> executeGraphQLQuery_catch error
           | Inr v \<Rightarrow> Inr v),
          [call]))"

text \<open>
  The tool result \<^verbatim>\<open>{ content: [{ type: "text", text: JSON.stringify(result) }] }\<close>, as
  the callback registered with the SDK server and the router's \<^verbatim>\<open>tools/call\<close> branch
  both build it.
\<close>

definition text_content :: "jsval \<Rightarrow> jsval" where
  "text_content result =
     JObj [(''content'', JArr [JObj [(''type'', JStr ''text''), (''text'', JSON_stringify result)]])]"

section \<open>The router: the exported \<^verbatim>\<open>fetch\<close> handler\<close>

definition corsHeaders :: "(string \<times> string) list" where
  "corsHeaders =
     [(''Access-Control-Allow-Origin'', ''*''),
      (''Access-Control-Allow-Methods'', ''GET, POST, OPTIONS''),
      (''Access-Control-Allow-Headers'', ''Content-Type''),
      (''Content-Type'', ''application/json'')]"

text \<open>\<^verbatim>\<open>new Response(null, { status, headers: corsHeaders })\<close>\<close>

definition empty_response :: "nat \<Rightarrow> response" where
  "empty_response st = \<lparr> res_status = st, res_headers = corsHeaders, res_body = None \<rparr>"

text \<open>
  \<^verbatim>\<open>new Response(JSON.stringify(obj), { status, headers: corsHeaders })\<close>; without a
  \<^verbatim>\<open>status\<close> the constructor takes 200.
\<close>

definition json_response :: "nat \<Rightarrow> jsval \<Rightarrow> response" where
  "json_response st obj =
     \<lparr> res_status = st, res_headers = corsHeaders,
       res_body = (case JSON_stringify obj of JStr s \<Rightarrow> Some s | _ \<Rightarrow> None) \<rparr>"

text \<open>The answer to a request that is neither \<^verbatim>\<open>OPTIONS\<close> nor \<^verbatim>\<open>POST\<close>.\<close>

definition ready_response :: response where
  "ready_response =
     \<lparr> res_status = 200,
       res_headers = map (\<lambda>(k, v). if k = ''Content-Type'' then (k, ''text/plain'') else (k, v)) corsHeaders,
       res_body = Some ''Catalysis Hub MCP Server - Ready'' \<rparr>"

subsection \<open>\<^verbatim>\<open>initialize\<close>\<close>

text \<open>\<^verbatim>\<open>requestBody.params?.protocolVersion || "2024-11-05"\<close>\<close>

definition clientProtocolVersion :: "jsval \<Rightarrow> jsval" where
  "clientProtocolVersion params =
     (let v = get_prop_opt params ''protocolVersion''
      in if truthy v then v else JStr ''2024-11-05'')"

definition initialize_result :: "jsval \<Rightarrow> jsval" where
  "initialize_result params =
     JObj [(''protocolVersion'', clientProtocolVersion params),
           (''capabilities'', JObj [(''tools'', JObj [])]),
           (''serverInfo'', JObj [(''name'', JStr ''CatalysisHub''), (''version'', JStr ''0.1.0'')])]"

definition result_envelope :: "jsval \<Rightarrow> jsval \<Rightarrow> jsval" where
  "result_envelope rid result =
     JObj [(''jsonrpc'', JStr ''2.0''), (''id'', rid), (''result'', result)]"

definition error_envelope :: "jsval \<Rightarrow> int \<Rightarrow> string \<Rightarrow> jsval" where
  "error_envelope rid code msg =
     JObj [(''jsonrpc'', JStr ''2.0''), (''id'', rid),
           (''error'', JObj [(''code'', JNum code), (''message'', JStr msg)])]"

subsection \<open>\<^verbatim>\<open>tools/list\<close>\<close>

definition query_description :: string where
  "query_description =
     ''The GraphQL query to execute against the Catalysis Hub API. '' @
     ''Use introspection queries to discover the schema. '' @
     ''If you get a HTTP 400 error, it means the query is invalid, '' @
     ''and you should run introspection queries in order to correct your queries.''"

definition tools :: jsval where
  "tools =
     JArr [JObj
       [(''name'', JStr ''catalysishub_graphql''),
        (''description'', JStr ''Execute GraphQL queries against the Catalysis Hub API''),
        (''inputSchema'', JObj
           [(''type'', JStr ''object''),
            (''properties'', JObj
               [(''query'', JObj [(''type'', JStr ''string''),
                                  (''description'', JStr query_description)]),
                (''variables'', JObj [(''type'', JStr ''object''),
                                      (''description'',
                                       JStr ''Optional dictionary of variables for the GraphQL query'')])]),
            (''required'', JArr [JStr ''query''])])]]"

subsection \<open>\<^verbatim>\<open>tools/call\<close>\<close>

text \<open>
  The text \<^verbatim>\<open>`${args.query?.slice(0, 100)}`\<close> of the log line that opens the inner
  \<^verbatim>\<open>try\<close>. Reading \<^verbatim>\<open>query\<close> from missing arguments throws; a nullish query ends the
  optional chain with \<^verbatim>\<open>undefined\<close>; strings and arrays have a \<^verbatim>\<open>slice\<close> method; a
  number, a boolean or an object has none, and calling it throws a TypeError.
\<close>

definition query_preview :: "jsval \<Rightarrow> jsexn + string" where
  "query_preview args =
     bind_exn (get_prop args ''query'') (\<lambda>q.
       if nullish q then Inr ''undefined''
       else (case q of
               JStr s \<Rightarrow> Inr (take 100 s)
             | JArr xs \<Rightarrow> js_ToString (JArr (take 100 xs))
             | _ \<Rightarrow> Inl (ErrorInst ''TypeError'' ''args.query?.slice is not a function'')))"

text \<open>
  The inner \<^verbatim>\<open>try\<close> block up to the value of \<^verbatim>\<open>result\<close>, with the upstream calls made.
\<close>

definition tool_try :: "upstream \<Rightarrow> jsval \<Rightarrow> (jsexn + jsval) \<times> fetch_call list" where
  "tool_try up args =
     (case query_preview args of
        Inl e \<Rightarrow> (Inl e, [])
      | Inr preview \<Rightarrow>
          (case get_prop args ''query'' of
             Inl e \<Rightarrow> (Inl e, [])
           | Inr query \<Rightarrow>
               (case get_prop args ''variables'' of
                  Inl e \<Rightarrow> (Inl e, [])
                | Inr variables \<Rightarrow> executeGraphQLQuery up query variables)))"

text \<open>The branch \<^verbatim>\<open>name === 'catalysishub_graphql'\<close>: the inner \<^verbatim>\<open>try\<close> and its \<^verbatim>\<open>catch\<close>.\<close>

definition call_catalysishub_graphql :: "upstream \<Rightarrow> jsval \<Rightarrow> jsval \<Rightarrow> response \<times> fetch_call list" where
  "call_catalysishub_graphql up rid args =
     (case tool_try up args of
        (Inr result, calls) \<Rightarrow> (json_response 200 (result_envelope rid (text_content result)), calls)
      | (Inl toolError, calls) \<Rightarrow>
          (json_response 500
             (error_envelope rid (- 32603) (''Tool execution failed: '' @ describe_error toolError)),
           calls))"

text \<open>
  The branch \<^verbatim>\<open>requestBody.method === 'tools/call'\<close>. The destructuring
  \<^verbatim>\<open>const { name, arguments: args } = requestBody.params\<close> throws when \<^verbatim>\<open>params\<close> is
  nullish.
\<close>

definition tools_call :: "upstream \<Rightarrow> jsval \<Rightarrow> jsval \<Rightarrow> jsexn + response \<times> fetch_call list" where
  "tools_call up requestBody rid =
     bind_exn (get_prop requestBody ''params'') (\<lambda>params.
     bind_exn (get_prop params ''name'') (\<lambda>name.
     bind_exn (get_prop params ''arguments'') (\<lambda>args.
       if name = JStr ''catalysishub_graphql''
       then Inr (call_catalysishub_graphql up rid args)
       else bind_exn (js_ToString name) (\<lambda>shown.
              Inr (json_response 404 (error_envelope rid (- 32601) (''Tool not found: '' @ shown)), [])))))"

subsection \<open>The handler\<close>

text \<open>
  The body of the outer \<^verbatim>\<open>try\<close>. The log lines are kept only where building their text
  can throw. \<^verbatim>\<open>getServer()\<close> fills the module's server singleton; no branch reads it.
  A computation that throws here has made no upstream call: the only call sits inside
  the inner \<^verbatim>\<open>try\<close>.
\<close>

definition fetch_try :: "upstream \<Rightarrow> request \<Rightarrow> jsexn + response \<times> fetch_call list" where
  "fetch_try up request =
     (if req_method request = ''OPTIONS'' then Inr (empty_response 204, [])
      else if req_method request \<noteq> ''POST'' then Inr (ready_response, [])
      else
        bind_exn (req_json request) (\<lambda>requestBody.
        bind_exn (get_prop requestBody ''method'') (\<lambda>method.
        bind_exn (get_prop requestBody ''id'') (\<lambda>rid.
          if method = JStr ''initialize''
          then bind_exn (get_prop requestBody ''params'') (\<lambda>params.
                 Inr (json_response 200 (result_envelope rid (initialize_result params)), []))
          else if truthy method \<and> \<not> truthy rid
          then (if method = JStr ''notifications/initialized''
                then Inr (empty_response 204, [])
                else bind_exn (js_ToString method) (\<lambda>shown. Inr (empty_response 204, [])))
          else if method = JStr ''tools/list''
          then Inr (json_response 200 (result_envelope rid (JObj [(''tools'', tools)])), [])
          else if method = JStr ''tools/call''
          then tools_call up requestBody rid
          else bind_exn (js_ToString method) (\<lambda>shown.
                 Inr (json_response 404 (error_envelope rid (- 32601) (''Method not found: '' @ shown)), []))))))"

text \<open>The outer \<^verbatim>\<open>catch (error)\<close>: the internal-error envelope with a \<^verbatim>\<open>null\<close> id.\<close>

definition internal_error_response :: response where
  "internal_error_response =
     json_response 500
       (JObj [(''jsonrpc'', JStr ''2.0''),
              (''error'', JObj [(''code'', JNum (- 32603)), (''message'', JStr ''Internal server error'')]),
              (''id'', JNull)])"

definition fetch :: "upstream \<Rightarrow> request \<Rightarrow> response \<times> fetch_call list" where
  "fetch up request =
     (case fetch_try up request of
        Inl error \<Rightarrow> (internal_error_response, [])
      | Inr r \<Rightarrow> r)"

section \<open>Concrete requests and upstream behaviours\<close>

text \<open>A \<^verbatim>\<open>POST\<close> whose body parses to the given document.\<close>

definition post :: "jsval \<Rightarrow> request" where
  "post requestBody = \<lparr> req_method = ''POST'', req_json = Inr requestBody \<rparr>"

text \<open>Upstreams: unreachable, throwing a non-error, answering a status, answering no JSON.\<close>

definition upstream_unreachable :: upstream where
  "upstream_unreachable call = Rejects (ErrorInst ''TypeError'' ''fetch failed'')"

definition upstream_throws_text :: upstream where
  "upstream_throws_text call = Rejects (NonError ''boom'')"

definition upstream_status :: "nat \<Rightarrow> upstream" where
  "upstream_status st call =
     Resolves \<lparr> up_status = st, up_ok = (200 \<le> st \<and> st \<le> 299),
                up_json = Inr (JStr ''Service Unavailable'') \<rparr>"

definition upstream_not_json :: upstream where
  "upstream_not_json call =
     Resolves \<lparr> up_status = 200, up_ok = True,
                up_json = Inl (ErrorInst ''SyntaxError'' ''Unexpected token < in JSON at position 0'') \<rparr>"

text \<open>The introspection scenario: the request with id 1 and the upstream's answer.\<close>

definition scenario_params :: jsval where
  "scenario_params =
     JObj [(''name'', JStr ''catalysishub_graphql''),
           (''arguments'', JObj [(''query'', JStr ''query{__schema{queryType{name}}}'')])]"

definition scenario_body :: jsval where
  "scenario_body =
     JObj [(''jsonrpc'', JStr ''2.0''), (''id'', JNum 1), (''method'', JStr ''tools/call''),
           (''params'', scenario_params)]"

definition scenario_request :: request where
  "scenario_request = post scenario_body"

definition scenario_data :: jsval where
  "scenario_data =
     JObj [(''data'', JObj [(''__schema'', JObj [(''queryType'', JObj [(''name'', JStr ''Query'')])])])]"

definition scenario_upstream :: upstream where
  "scenario_upstream call = Resolves \<lparr> up_status = 200, up_ok = True, up_json = Inr scenario_data \<rparr>"

text \<open>\<^verbatim>\<open>initialize\<close> requests: a version, no version, the empty string as version.\<close>

definition initialize_body :: "jsval \<Rightarrow> jsval" where
  "initialize_body params =
     JObj [(''jsonrpc'', JStr ''2.0''), (''id'', JNum 1), (''method'', JStr ''initialize''),
           (''params'', params)]"

definition version_params :: jsval where
  "version_params = JObj [(''protocolVersion'', JStr ''2025-03-26'')]"

definition empty_version_params :: jsval where
  "empty_version_params = JObj [(''protocolVersion'', JStr [])]"

text \<open>Envelopes with a method outside the known set, and with an empty method.\<close>

definition unknown_method_with_id :: jsval where
  "unknown_method_with_id =
     JObj [(''jsonrpc'', JStr ''2.0''), (''id'', JNum 7), (''method'', JStr ''resources/list'')]"

definition unknown_method_no_id :: jsval where
  "unknown_method_no_id = JObj [(''jsonrpc'', JStr ''2.0''), (''method'', JStr ''resources/list'')]"

definition empty_method_no_id :: jsval where
  "empty_method_no_id = JObj [(''jsonrpc'', JStr ''2.0''), (''method'', JStr [])]"

definition empty_method_id_zero :: jsval where
  "empty_method_id_zero = JObj [(''jsonrpc'', JStr ''2.0''), (''id'', JNum 0), (''method'', JStr [])]"

text \<open>\<^verbatim>\<open>tools/call\<close> envelopes: id 0, no id, an unknown tool, a query that is a number.\<close>

definition unknown_tool_id_zero :: jsval where
  "unknown_tool_id_zero =
     JObj [(''jsonrpc'', JStr ''2.0''), (''id'', JNum 0), (''method'', JStr ''tools/call''),
           (''params'', JObj [(''name'', JStr ''no_such_tool''), (''arguments'', JObj [])])]"

definition unknown_tool_id_one :: jsval where
  "unknown_tool_id_one =
     JObj [(''jsonrpc'', JStr ''2.0''), (''id'', JNum 1), (''method'', JStr ''tools/call''),
           (''params'', JObj [(''name'', JStr ''no_such_tool''), (''arguments'', JObj [])])]"

definition known_tool_id_zero :: jsval where
  "known_tool_id_zero =
     JObj [(''jsonrpc'', JStr ''2.0''), (''id'', JNum 0), (''method'', JStr ''tools/call''),
           (''params'', scenario_params)]"

definition known_tool_no_id :: jsval where
  "known_tool_no_id =
     JObj [(''jsonrpc'', JStr ''2.0''), (''method'', JStr ''tools/call''),
           (''params'', scenario_params)]"

definition query_number_params :: jsval where
  "query_number_params =
     JObj [(''name'', JStr ''catalysishub_graphql''), (''arguments'', JObj [(''query'', JNum 5)])]"

definition query_number_body :: jsval where
  "query_number_body =
     JObj [(''jsonrpc'', JStr ''2.0''), (''id'', JNum 1), (''method'', JStr ''tools/call''),
           (''params'', query_number_params)]"

text \<open>A \<^verbatim>\<open>tools/call\<close> of the known tool whose arguments carry the variables 0.\<close>

definition zero_variables_body :: jsval where
  "zero_variables_body =
     JObj [(''jsonrpc'', JStr ''2.0''), (''id'', JNum 1), (''method'', JStr ''tools/call''),
           (''params'', JObj [(''name'', JStr ''catalysishub_graphql''),
                              (''arguments'', JObj [(''query'', JStr ''{ systems { id } }''),
                                                    (''variables'', JNum 0)])])]"

section \<open>Evaluation lemmas\<close>

lemmas forwarder_defs =
  executeGraphQLQuery_def executeGraphQLQuery_try_def executeGraphQLQuery_catch_def
  MyMCP_executeGraphQLQuery_def MyMCP_GRAPHQL_ROOT_def graphql_call_def

lemmas ser_defs =
  json_response_def JSON_stringify_def QuoteJSONString_def quote_char_def show_int_def
  digits.simps digit_char_def result_envelope_def error_envelope_def text_content_def
  errors_value_def

lemmas router_defs = fetch_def fetch_try_def bind_exn_def tools_call_def

lemmas tool_defs =
  call_catalysishub_graphql_def tool_try_def query_preview_def executeGraphQLQuery_def
  executeGraphQLQuery_try_def executeGraphQLQuery_catch_def graphql_call_def request_data_def
  GRAPHQL_ROOT_def

lemmas scenario_defs =
  scenario_request_def scenario_body_def scenario_params_def scenario_upstream_def
  scenario_data_def post_def

lemma quote_query: \<open>QuoteJSONString ''query'' = ''"query"''\<close>
  by (simp add: QuoteJSONString_def quote_char_def)

lemma quote_variables: \<open>QuoteJSONString ''variables'' = ''"variables"''\<close>
  by (simp add: QuoteJSONString_def quote_char_def)

lemma internal_error_response_body:
  \<open>internal_error_response =
     \<lparr> res_status = 500, res_headers = corsHeaders,
       res_body = Some ''{"jsonrpc":"2.0","error":{"code":-32603,"message":"Internal server error"},"id":null}'' \<rparr>\<close>
  by (simp add: internal_error_response_def ser_defs)

lemma get_prop_defined_obj:
  assumes "get_prop b k = Inr v" and "v \<noteq> JUndefined"
  obtains kvs where "b = JObj kvs"
  using assms by (cases b) auto

section \<open>The forwarder\<close>

lemma executeGraphQLQuery_catch_Inr:
  "executeGraphQLQuery_catch e =
     Inr (errors_value ((if instanceof_Error e then ''HTTP Request Error connecting to Catalysis Hub: ''
                         else ''An unexpected error occurred: '') @ describe_error e))"
  by (simp add: executeGraphQLQuery_catch_def)

lemma executeGraphQLQuery_total:
  "\<exists>v. fst (executeGraphQLQuery up query variables) = Inr v"
  by (cases "executeGraphQLQuery_try up query variables")
     (simp_all add: executeGraphQLQuery_def executeGraphQLQuery_catch_Inr)

lemma executeGraphQLQuery_calls:
  "snd (executeGraphQLQuery up query variables) = [graphql_call query variables]"
  by (simp add: executeGraphQLQuery_def)

text \<open>
  Claim C3. \<^verbatim>\<open>executeGraphQLQuery\<close> never throws to its caller: for every query,
  variables and upstream behaviour it returns a value. When \<^verbatim>\<open>fetch\<close> rejects (network
  failure), when the upstream answers with a status that is not ok, and when reading the
  body as JSON fails, the value is \<^verbatim>\<open>{errors:[{message: m}]}\<close>, where \<open>m\<close> is the
  description of the failure after the label
  \<^verbatim>\<open>HTTP Request Error connecting to Catalysis Hub: \<close> for an instance of \<^verbatim>\<open>Error\<close>
  and after the fallback label \<^verbatim>\<open>An unexpected error occurred: \<close> for any other
  thrown value. The method of the agent variant behaves the same.
\<close>

theorem executeGraphQLQuery_never_throws:
  "(\<exists>v. fst (executeGraphQLQuery up query variables) = Inr v)
   \<and> (\<forall>e. up (graphql_call query variables) = Rejects e \<longrightarrow>
          fst (executeGraphQLQuery up query variables) =
            Inr (JObj [(''errors'', JArr [JObj [(''message'', JStr
              ((if instanceof_Error e then ''HTTP Request Error connecting to Catalysis Hub: ''
                else ''An unexpected error occurred: '') @ describe_error e))]])]))
   \<and> (\<forall>r. up (graphql_call query variables) = Resolves r \<and> \<not> up_ok r \<longrightarrow>
          fst (executeGraphQLQuery up query variables) =
            Inr (JObj [(''errors'', JArr [JObj [(''message'', JStr
              (''HTTP Request Error connecting to Catalysis Hub: '' @
               ''HTTP error! status: '' @ digits (up_status r)))]])]))
   \<and> (\<forall>r e. up (graphql_call query variables) = Resolves r \<and> up_ok r \<and> up_json r = Inl e \<longrightarrow>
          fst (executeGraphQLQuery up query variables) =
            Inr (JObj [(''errors'', JArr [JObj [(''message'', JStr
              ((if instanceof_Error e then ''HTTP Request Error connecting to Catalysis Hub: ''
                else ''An unexpected error occurred: '') @ describe_error e))]])]))
   \<and> MyMCP_executeGraphQLQuery up query variables = executeGraphQLQuery up query variables"
proof (intro conjI allI impI)
  show "\<exists>v. fst (executeGraphQLQuery up query variables) = Inr v"
    by (rule executeGraphQLQuery_total)
next
  fix e assume "up (graphql_call query variables) = Rejects e"
  then show "fst (executeGraphQLQuery up query variables) =
      Inr (JObj [(''errors'', JArr [JObj [(''message'', JStr
        ((if instanceof_Error e then ''HTTP Request Error connecting to Catalysis Hub: ''
          else ''An unexpected error occurred: '') @ describe_error e))]])])"
    by (simp add: executeGraphQLQuery_def executeGraphQLQuery_try_def executeGraphQLQuery_catch_Inr
          errors_value_def)
next
  fix r assume "up (graphql_call query variables) = Resolves r \<and> \<not> up_ok r"
  then show "fst (executeGraphQLQuery up query variables) =
      Inr (JObj [(''errors'', JArr [JObj [(''message'', JStr
        (''HTTP Request Error connecting to Catalysis Hub: '' @
         ''HTTP error! status: '' @ digits (up_status r)))]])])"
    by (simp add: executeGraphQLQuery_def executeGraphQLQuery_try_def executeGraphQLQuery_catch_Inr
          errors_value_def)
next
  fix r e assume "up (graphql_call query variables) = Resolves r \<and> up_ok r \<and> up_json r = Inl e"
  then show "fst (executeGraphQLQuery up query variables) =
      Inr (JObj [(''errors'', JArr [JObj [(''message'', JStr
        ((if instanceof_Error e then ''HTTP Request Error connecting to Catalysis Hub: ''
          else ''An unexpected error occurred: '') @ describe_error e))]])])"
    by (simp add: executeGraphQLQuery_def executeGraphQLQuery_try_def executeGraphQLQuery_catch_Inr
          errors_value_def)
next
  show "MyMCP_executeGraphQLQuery up query variables = executeGraphQLQuery up query variables"
    by (simp add: forwarder_defs GRAPHQL_ROOT_def Let_def)
qed

text \<open>
  Witness for C3: an unreachable upstream, an upstream throwing a text, an upstream
  answering 503, and an upstream whose body is not JSON.
\<close>

theorem executeGraphQLQuery_never_throws_witness:
  "fst (executeGraphQLQuery upstream_unreachable (JStr ''{ systems { id } }'') JUndefined) =
     Inr (JObj [(''errors'', JArr [JObj [(''message'', JStr
       ''HTTP Request Error connecting to Catalysis Hub: fetch failed'')]])])
   \<and> fst (executeGraphQLQuery upstream_throws_text (JStr ''{ systems { id } }'') JUndefined) =
     Inr (JObj [(''errors'', JArr [JObj [(''message'', JStr
       ''An unexpected error occurred: boom'')]])])
   \<and> fst (executeGraphQLQuery (upstream_status 503) (JStr ''{ systems { id } }'') JUndefined) =
     Inr (JObj [(''errors'', JArr [JObj [(''message'', JStr
       ''HTTP Request Error connecting to Catalysis Hub: HTTP error! status: 503'')]])])
   \<and> fst (executeGraphQLQuery upstream_not_json (JStr ''{ systems { id } }'') JUndefined) =
     Inr (JObj [(''errors'', JArr [JObj [(''message'', JStr
       ''HTTP Request Error connecting to Catalysis Hub: Unexpected token < in JSON at position 0'')]])])"
  using executeGraphQLQuery_never_throws [of upstream_unreachable "JStr ''{ systems { id } }''" JUndefined]
        executeGraphQLQuery_never_throws [of upstream_throws_text "JStr ''{ systems { id } }''" JUndefined]
        executeGraphQLQuery_never_throws [of "upstream_status 503" "JStr ''{ systems { id } }''" JUndefined]
        executeGraphQLQuery_never_throws [of upstream_not_json "JStr ''{ systems { id } }''" JUndefined]
  by (simp add: upstream_unreachable_def upstream_throws_text_def upstream_status_def
        upstream_not_json_def digits.simps digit_char_def)

text \<open>A truthy value is never \<^verbatim>\<open>undefined\<close>, so it is always printed.\<close>

lemma truthy_ser:
  assumes "truthy v"
  obtains s where "ser v = Some s"
  using assms
  by (cases v) simp_all

lemma falsy_request_data:
  "\<not> truthy variables \<Longrightarrow> request_data query variables = JObj [(''query'', query)]"
  by (simp add: request_data_def)

text \<open>
  Claim C8, as the forwarder computes it. For every invocation of the forwarder with a
  query string, the one outbound request has a JSON body with the key \<^verbatim>\<open>query\<close> holding
  that string. The body has the key \<^verbatim>\<open>variables\<close> exactly when the variables value is
  truthy, as every map is, the empty one included; the key then holds the printed
  value. When the variables are absent or falsy (\<^verbatim>\<open>null\<close>,
  \<^verbatim>\<open>false\<close>, 0, the empty string) the body is exactly \<^verbatim>\<open>{"query":...}\<close>: the key is
  left out, not written as \<^verbatim>\<open>null\<close>.
\<close>

theorem outbound_body_query_and_variables:
  \<open>snd (executeGraphQLQuery up (JStr q) variables) = [graphql_call (JStr q) variables]
   \<and> (\<not> truthy variables \<longrightarrow>
        request_data (JStr q) variables = JObj [(''query'', JStr q)]
        \<and> call_body (graphql_call (JStr q) variables) =
            JStr (''{"query":'' @ QuoteJSONString q @ ''}''))
   \<and> (truthy variables \<longrightarrow>
        request_data (JStr q) variables = JObj [(''query'', JStr q), (''variables'', variables)]
        \<and> (\<exists>s. ser variables = Some s
              \<and> call_body (graphql_call (JStr q) variables) =
                  JStr (''{"query":'' @ QuoteJSONString q @ '',"variables":'' @ s @ ''}'')))
   \<and> (variables = JUndefined \<longrightarrow>
        request_data (JStr q) variables = JObj [(''query'', JStr q)]
        \<and> call_body (graphql_call (JStr q) variables) =
            JStr (''{"query":'' @ QuoteJSONString q @ ''}''))
   \<and> (\<forall>kvs. variables = JObj kvs \<longrightarrow>
        request_data (JStr q) variables = JObj [(''query'', JStr q), (''variables'', JObj kvs)]
        \<and> call_body (graphql_call (JStr q) variables) =
            JStr (''{"query":'' @ QuoteJSONString q @ '',"variables":{'' @
                  join_with '','' (ser_props kvs) @ ''}}''))\<close>
proof (intro conjI allI impI)
  show "snd (executeGraphQLQuery up (JStr q) variables) = [graphql_call (JStr q) variables]"
    by (simp add: executeGraphQLQuery_def)
next
  assume "\<not> truthy variables"
  then show "request_data (JStr q) variables = JObj [(''query'', JStr q)]"
    by (simp add: request_data_def)
next
  assume "\<not> truthy variables"
  then show \<open>call_body (graphql_call (JStr q) variables) =
            JStr (''{"query":'' @ QuoteJSONString q @ ''}'')\<close>
    by (simp add: graphql_call_def request_data_def JSON_stringify_def quote_query)
next
  assume "truthy variables"
  then show "request_data (JStr q) variables = JObj [(''query'', JStr q), (''variables'', variables)]"
    by (simp add: request_data_def)
next
  assume t: "truthy variables"
  then obtain s where s: "ser variables = Some s"
    by (rule truthy_ser)
  with t have \<open>call_body (graphql_call (JStr q) variables) =
                  JStr (''{"query":'' @ QuoteJSONString q @ '',"variables":'' @ s @ ''}'')\<close>
    by (simp add: graphql_call_def request_data_def JSON_stringify_def quote_query quote_variables)
  with s show \<open>\<exists>s. ser variables = Some s
              \<and> call_body (graphql_call (JStr q) variables) =
                  JStr (''{"query":'' @ QuoteJSONString q @ '',"variables":'' @ s @ ''}'')\<close>
    by blast
next
  assume "variables = JUndefined"
  then show "request_data (JStr q) variables = JObj [(''query'', JStr q)]"
    by (simp add: request_data_def)
next
  assume "variables = JUndefined"
  then show \<open>call_body (graphql_call (JStr q) variables) =
            JStr (''{"query":'' @ QuoteJSONString q @ ''}'')\<close>
    by (simp add: graphql_call_def request_data_def JSON_stringify_def quote_query)
next
  fix kvs assume "variables = JObj kvs"
  then show "request_data (JStr q) variables = JObj [(''query'', JStr q), (''variables'', JObj kvs)]"
    by (simp add: request_data_def)
next
  fix kvs assume "variables = JObj kvs"
  then show \<open>call_body (graphql_call (JStr q) variables) =
            JStr (''{"query":'' @ QuoteJSONString q @ '',"variables":{'' @
                  join_with '','' (ser_props kvs) @ ''}}'')\<close>
    by (simp add: graphql_call_def request_data_def JSON_stringify_def quote_query quote_variables)
qed

text \<open>
  Witness for C8: a query without variables, with the variables \<^verbatim>\<open>null\<close>, with the
  variables \<^verbatim>\<open>{"n":5}\<close>, and with the empty map.
\<close>

theorem outbound_body_query_and_variables_witness:
  \<open>call_body (graphql_call (JStr ''{ systems { id } }'') JUndefined) =
     JStr ''{"query":"{ systems { id } }"}''
   \<and> call_body (graphql_call (JStr ''{ systems { id } }'') JNull) =
     JStr ''{"query":"{ systems { id } }"}''
   \<and> call_body (graphql_call (JStr ''{ systems(first: $n) { id } }'') (JObj [(''n'', JNum 5)])) =
     JStr ''{"query":"{ systems(first: $n) { id } }","variables":{"n":5}}''
   \<and> call_body (graphql_call (JStr ''{ systems { id } }'') (JObj [])) =
     JStr ''{"query":"{ systems { id } }","variables":{}}''\<close>
  using outbound_body_query_and_variables [of upstream_unreachable "''{ systems { id } }''" JUndefined]
        outbound_body_query_and_variables [of upstream_unreachable "''{ systems { id } }''" JNull]
        outbound_body_query_and_variables
          [of upstream_unreachable "''{ systems(first: $n) { id } }''" "JObj [(''n'', JNum 5)]"]
        outbound_body_query_and_variables [of upstream_unreachable "''{ systems { id } }''" "JObj []"]
  by (simp add: QuoteJSONString_def quote_char_def show_int_def digits.simps digit_char_def)

text \<open>
  Counterexample to C8 as stated: a variables value was supplied and the key is not in
  the body. The router hands \<^verbatim>\<open>args.variables\<close> to the forwarder as it came; for the
  arguments \<^verbatim>\<open>{"query":"{ systems { id } }","variables":0}\<close> the outbound body is
  \<^verbatim>\<open>{"query":"{ systems { id } }"}\<close>, and so it is for \<^verbatim>\<open>false\<close> and the empty string.
\<close>

theorem supplied_falsy_variables_are_dropped:
  \<open>snd (fetch scenario_upstream (post zero_variables_body)) =
     [\<lparr> call_url = ''http://api.catalysis-hub.org/graphql'', call_method = ''POST'',
         call_headers = [(''Content-Type'', ''application/json''),
                         (''User-Agent'', ''MCPCatalysisHubServer/0.1.0'')],
         call_body = JStr ''{"query":"{ systems { id } }"}'' \<rparr>]
   \<and> call_body (graphql_call (JStr ''{ systems { id } }'') (JNum 0)) =
       JStr ''{"query":"{ systems { id } }"}''
   \<and> call_body (graphql_call (JStr ''{ systems { id } }'') (JBool False)) =
       JStr ''{"query":"{ systems { id } }"}''
   \<and> call_body (graphql_call (JStr ''{ systems { id } }'') (JStr [])) =
       JStr ''{"query":"{ systems { id } }"}''\<close>
  by (simp add: zero_variables_body_def post_def scenario_upstream_def router_defs tool_defs
        JSON_stringify_def QuoteJSONString_def quote_char_def)

section \<open>The router: malformed bodies, \<^verbatim>\<open>initialize\<close>, unknown methods, notifications\<close>

text \<open>
  Claim C7. A \<^verbatim>\<open>POST\<close> whose body is not valid structured data (\<^verbatim>\<open>request.json()\<close>
  throws) does not crash the handler: the answer has the status 500 and carries the
  JSON-RPC error envelope with code -32603 and a \<^verbatim>\<open>null\<close> id; no upstream call is made.
\<close>

theorem malformed_body_internal_error:
  assumes \<open>req_method request = ''POST''\<close>
    and \<open>req_json request = Inl e\<close>
  shows \<open>fetch up request =
     (\<lparr> res_status = 500, res_headers = corsHeaders,
        res_body = Some ''{"jsonrpc":"2.0","error":{"code":-32603,"message":"Internal server error"},"id":null}'' \<rparr>,
      [])\<close>
  using assms
  by (auto simp add: fetch_def fetch_try_def bind_exn_def internal_error_response_body)

text \<open>Witness for C7: a body that ends in the middle of a document.\<close>

theorem malformed_body_internal_error_witness:
  \<open>fetch upstream_unreachable
     \<lparr> req_method = ''POST'', req_json = Inl (ErrorInst ''SyntaxError'' ''Unexpected end of JSON input'') \<rparr> =
     (\<lparr> res_status = 500, res_headers = corsHeaders,
        res_body = Some ''{"jsonrpc":"2.0","error":{"code":-32603,"message":"Internal server error"},"id":null}'' \<rparr>,
      [])\<close>
  using malformed_body_internal_error
    [of "\<lparr> req_method = ''POST'', req_json = Inl (ErrorInst ''SyntaxError'' ''Unexpected end of JSON input'') \<rparr>"
        "ErrorInst ''SyntaxError'' ''Unexpected end of JSON input''" upstream_unreachable]
  by simp

text \<open>The document \<^verbatim>\<open>null\<close> ends in the same answer: reading its method throws.\<close>

lemma null_body_internal_error:
  assumes \<open>req_method request = ''POST''\<close>
    and \<open>req_json request = Inr JNull\<close>
  shows \<open>fetch up request = (internal_error_response, [])\<close>
  using assms
  by (simp add: fetch_def fetch_try_def bind_exn_def)

text \<open>
  Claim C4, as the handler computes it. For every \<^verbatim>\<open>initialize\<close> request the result
  carries the capabilities \<^verbatim>\<open>{tools:{}}\<close> and the server info
  \<^verbatim>\<open>{name:"CatalysisHub", version:"0.1.0"}\<close>. Its \<^verbatim>\<open>protocolVersion\<close> is the value of
  \<^verbatim>\<open>params?.protocolVersion\<close> verbatim when that value is truthy, and the default
  \<^verbatim>\<open>2024-11-05\<close> when it is omitted or falsy (the empty string, 0, \<^verbatim>\<open>false\<close>, \<^verbatim>\<open>null\<close>).
\<close>

theorem initialize_protocolVersion:
  assumes "req_method request = ''POST''"
    and "req_json request = Inr requestBody"
    and "get_prop requestBody ''method'' = Inr (JStr ''initialize'')"
    and "get_prop requestBody ''id'' = Inr rid"
    and "get_prop requestBody ''params'' = Inr params"
  shows "(truthy (get_prop_opt params ''protocolVersion'') \<longrightarrow>
           fetch up request =
             (json_response 200
                (JObj [(''jsonrpc'', JStr ''2.0''), (''id'', rid),
                       (''result'', JObj
                          [(''protocolVersion'', get_prop_opt params ''protocolVersion''),
                           (''capabilities'', JObj [(''tools'', JObj [])]),
                           (''serverInfo'', JObj [(''name'', JStr ''CatalysisHub''),
                                                  (''version'', JStr ''0.1.0'')])])]), []))
       \<and> (\<not> truthy (get_prop_opt params ''protocolVersion'') \<longrightarrow>
           fetch up request =
             (json_response 200
                (JObj [(''jsonrpc'', JStr ''2.0''), (''id'', rid),
                       (''result'', JObj
                          [(''protocolVersion'', JStr ''2024-11-05''),
                           (''capabilities'', JObj [(''tools'', JObj [])]),
                           (''serverInfo'', JObj [(''name'', JStr ''CatalysisHub''),
                                                  (''version'', JStr ''0.1.0'')])])]), []))"
  using assms
  by (simp add: fetch_def fetch_try_def bind_exn_def initialize_result_def result_envelope_def
        clientProtocolVersion_def Let_def)

text \<open>
  Witness for C4: a request asking for \<^verbatim>\<open>2025-03-26\<close> gets that version back, a request
  with empty \<^verbatim>\<open>params\<close> gets the default.
\<close>

theorem initialize_protocolVersion_witness:
  \<open>fetch upstream_unreachable (post (initialize_body version_params)) =
     (\<lparr> res_status = 200, res_headers = corsHeaders,
        res_body = Some ''{"jsonrpc":"2.0","id":1,"result":{"protocolVersion":"2025-03-26","capabilities":{"tools":{}},"serverInfo":{"name":"CatalysisHub","version":"0.1.0"}}}'' \<rparr>,
      [])
   \<and> fetch upstream_unreachable (post (initialize_body (JObj []))) =
     (\<lparr> res_status = 200, res_headers = corsHeaders,
        res_body = Some ''{"jsonrpc":"2.0","id":1,"result":{"protocolVersion":"2024-11-05","capabilities":{"tools":{}},"serverInfo":{"name":"CatalysisHub","version":"0.1.0"}}}'' \<rparr>,
      [])\<close>
  using initialize_protocolVersion
          [of "post (initialize_body version_params)" "initialize_body version_params"
              "JNum 1" version_params upstream_unreachable]
        initialize_protocolVersion
          [of "post (initialize_body (JObj []))" "initialize_body (JObj [])"
              "JNum 1" "JObj []" upstream_unreachable]
  by (simp add: post_def initialize_body_def version_params_def get_prop_opt_def
        json_response_def JSON_stringify_def QuoteJSONString_def quote_char_def show_int_def
        digits.simps digit_char_def)

text \<open>
  Counterexample to C4 as stated: the request supplies the empty string as
  \<^verbatim>\<open>protocolVersion\<close>, and the response carries \<^verbatim>\<open>2024-11-05\<close>, not the supplied value.
\<close>

theorem initialize_empty_version_not_echoed:
  \<open>fetch upstream_unreachable (post (initialize_body empty_version_params)) =
     (\<lparr> res_status = 200, res_headers = corsHeaders,
        res_body = Some ''{"jsonrpc":"2.0","id":1,"result":{"protocolVersion":"2024-11-05","capabilities":{"tools":{}},"serverInfo":{"name":"CatalysisHub","version":"0.1.0"}}}'' \<rparr>,
      [])
   \<and> get_prop empty_version_params ''protocolVersion'' = Inr (JStr [])
   \<and> clientProtocolVersion empty_version_params \<noteq> JStr []\<close>
  by (simp add: post_def initialize_body_def empty_version_params_def fetch_def fetch_try_def
        bind_exn_def initialize_result_def clientProtocolVersion_def get_prop_opt_def ser_defs)

text \<open>
  Claim C5, as the handler computes it. For every envelope whose method is a string
  outside the known set: sent with a truthy id (a number other than 0, a non-empty
  string), the answer has status 404 and carries the JSON-RPC error envelope with code
  -32601 and the request's id; sent without an id, and with a non-empty method, the
  answer is 204 with no body.
\<close>

theorem unknown_method_dispatch:
  assumes "req_method request = ''POST''"
    and "req_json request = Inr requestBody"
    and "get_prop requestBody ''method'' = Inr (JStr m)"
    and "m \<noteq> ''initialize''" and "m \<noteq> ''notifications/initialized''"
    and "m \<noteq> ''tools/list''" and "m \<noteq> ''tools/call''"
    and "get_prop requestBody ''id'' = Inr rid"
  shows "(truthy rid \<longrightarrow>
           fetch up request =
             (json_response 404
                (JObj [(''jsonrpc'', JStr ''2.0''), (''id'', rid),
                       (''error'', JObj [(''code'', JNum (- 32601)),
                                         (''message'', JStr (''Method not found: '' @ m))])]), []))
       \<and> (rid = JUndefined \<and> m \<noteq> [] \<longrightarrow>
           fetch up request =
             (\<lparr> res_status = 204, res_headers = corsHeaders, res_body = None \<rparr>, []))"
  using assms by (simp add: router_defs error_envelope_def empty_response_def)

text \<open>Witness for C5: the method \<^verbatim>\<open>resources/list\<close> with the id 7 and without an id.\<close>

theorem unknown_method_dispatch_witness:
  \<open>fetch upstream_unreachable (post unknown_method_with_id) =
     (\<lparr> res_status = 404, res_headers = corsHeaders,
        res_body = Some ''{"jsonrpc":"2.0","id":7,"error":{"code":-32601,"message":"Method not found: resources/list"}}'' \<rparr>,
      [])
   \<and> fetch upstream_unreachable (post unknown_method_no_id) =
     (\<lparr> res_status = 204, res_headers = corsHeaders, res_body = None \<rparr>, [])\<close>
  using unknown_method_dispatch
          [of "post unknown_method_with_id" unknown_method_with_id
              "''resources/list''" "JNum 7" upstream_unreachable]
        unknown_method_dispatch
          [of "post unknown_method_no_id" unknown_method_no_id
              "''resources/list''" JUndefined upstream_unreachable]
  by (simp add: unknown_method_with_id_def unknown_method_no_id_def post_def
        json_response_def JSON_stringify_def QuoteJSONString_def quote_char_def show_int_def
        digits.simps digit_char_def)

text \<open>
  Counterexample to C5 as stated: the empty string is a method outside the known set;
  sent without an id it is answered with status 404 and the error envelope, not with 204.
\<close>

theorem empty_method_without_id_is_an_error:
  \<open>fetch upstream_unreachable (post empty_method_no_id) =
     (\<lparr> res_status = 404, res_headers = corsHeaders,
        res_body = Some ''{"jsonrpc":"2.0","error":{"code":-32601,"message":"Method not found: "}}'' \<rparr>,
      [])\<close>
  by (simp add: empty_method_no_id_def post_def router_defs ser_defs)

text \<open>
  Claim C6 says that a \<^verbatim>\<open>tools/call\<close> with an id and an unknown tool name is answered
  with status 404 and code -32601. At the request with the id 0 and the tool name
  \<^verbatim>\<open>no_such_tool\<close> the id is present and the tool is unknown, and the handler answers
  204 with no body: the notification test takes the id 0 for a missing id.
\<close>

theorem unknown_tool_id_zero_unanswered:
  \<open>fetch upstream_unreachable (post unknown_tool_id_zero) =
     (\<lparr> res_status = 204, res_headers = corsHeaders, res_body = None \<rparr>, [])\<close>
  by (simp add: unknown_tool_id_zero_def post_def router_defs empty_response_def)

text \<open>
  The same request with a truthy id takes the tool-not-found branch: status 404, code
  -32601, the id echoed.
\<close>

lemma unknown_tool_truthy_id:
  assumes "req_method request = ''POST''"
    and "req_json request = Inr requestBody"
    and "get_prop requestBody ''method'' = Inr (JStr ''tools/call'')"
    and "get_prop requestBody ''id'' = Inr rid" and "truthy rid"
    and "get_prop requestBody ''params'' = Inr params"
    and "get_prop params ''name'' = Inr (JStr n)" and "n \<noteq> ''catalysishub_graphql''"
  shows "fetch up request =
           (json_response 404 (error_envelope rid (- 32601) (''Tool not found: '' @ n)), [])"
proof -
  from assms(7) obtain kvs where "params = JObj kvs"
    by (rule get_prop_defined_obj) simp
  with assms show ?thesis
    by (simp add: router_defs)
qed

lemma unknown_tool_id_one_answered:
  \<open>fetch upstream_unreachable (post unknown_tool_id_one) =
     (\<lparr> res_status = 404, res_headers = corsHeaders,
        res_body = Some ''{"jsonrpc":"2.0","id":1,"error":{"code":-32601,"message":"Tool not found: no_such_tool"}}'' \<rparr>,
      [])\<close>
  by (simp add: unknown_tool_id_one_def post_def router_defs ser_defs)

text \<open>
  Claim C9, as the handler computes it. The notification test is a falsy check on the
  id: every envelope whose method is a non-empty string other than \<^verbatim>\<open>initialize\<close> and
  whose id is 0 or the empty string is answered with 204 and no body, and no upstream
  call is made.
\<close>

theorem falsy_id_is_notification:
  assumes "req_method request = ''POST''"
    and "req_json request = Inr requestBody"
    and "get_prop requestBody ''method'' = Inr (JStr m)"
    and "m \<noteq> []" and "m \<noteq> ''initialize''"
    and "get_prop requestBody ''id'' = Inr rid"
    and "rid = JNum 0 \<or> rid = JStr []"
  shows "fetch up request = (\<lparr> res_status = 204, res_headers = corsHeaders, res_body = None \<rparr>, [])"
proof -
  from assms(7) have falsy: "\<not> truthy rid"
    by auto
  from assms(4) have named: "truthy (JStr m)"
    by simp
  show ?thesis
    using assms(1,2,3,5,6) falsy named
    by (simp add: router_defs empty_response_def)
qed

text \<open>
  Witness for C9: a \<^verbatim>\<open>tools/call\<close> of the known tool with the id 0 gets 204, no
  envelope, and the upstream is not called.
\<close>

theorem falsy_id_is_notification_witness:
  \<open>fetch scenario_upstream (post known_tool_id_zero) =
     (\<lparr> res_status = 204, res_headers = corsHeaders, res_body = None \<rparr>, [])\<close>
  using falsy_id_is_notification
          [of "post known_tool_id_zero" known_tool_id_zero "''tools/call''" "JNum 0" scenario_upstream]
  by (simp add: known_tool_id_zero_def post_def)

text \<open>
  Counterexample to C9 as stated: in \<^verbatim>\<open>{"jsonrpc":"2.0","id":0,"method":""}\<close> the
  method is present and is not \<^verbatim>\<open>initialize\<close>, the id is 0, and the answer is the
  method-not-found envelope with status 404, not 204.
\<close>

theorem empty_method_id_zero_is_answered:
  \<open>fetch upstream_unreachable (post empty_method_id_zero) =
     (\<lparr> res_status = 404, res_headers = corsHeaders,
        res_body = Some ''{"jsonrpc":"2.0","id":0,"error":{"code":-32601,"message":"Method not found: "}}'' \<rparr>,
      [])\<close>
  by (simp add: empty_method_id_zero_def post_def router_defs ser_defs)

section \<open>The router: \<^verbatim>\<open>tools/call\<close> of the known tool\<close>

text \<open>The inner \<^verbatim>\<open>try\<close> has called the upstream only by way of the forwarder.\<close>

lemma tool_try_called:
  assumes "snd (tool_try up args) = [call]"
  obtains q v where "get_prop args ''query'' = Inr q" and "get_prop args ''variables'' = Inr v"
    and "call = graphql_call q v" and "tool_try up args = executeGraphQLQuery up q v"
  using assms
  by (auto simp add: tool_try_def executeGraphQLQuery_def split: sum.splits)

text \<open>The inner \<^verbatim>\<open>try\<close> throws exactly when building the text of its log line throws.\<close>

lemma tool_try_throws_iff:
  "fst (tool_try up args) = Inl e \<longleftrightarrow> query_preview args = Inl e"
proof (cases "query_preview args")
  case (Inl e')
  then show ?thesis by (simp add: tool_try_def)
next
  case (Inr p)
  then obtain q where q: "get_prop args ''query'' = Inr q"
    by (cases "get_prop args ''query''") (simp_all add: query_preview_def bind_exn_def)
  then obtain v where v: "get_prop args ''variables'' = Inr v"
    by (cases args) auto
  obtain w where "fst (executeGraphQLQuery up q v) = Inr w"
    using executeGraphQLQuery_total by blast
  with Inr q v show ?thesis
    by (simp add: tool_try_def)
qed

lemma call_catalysishub_graphql_calls:
  "snd (call_catalysishub_graphql up rid args) = snd (tool_try up args)"
  by (simp add: call_catalysishub_graphql_def split: prod.splits sum.splits)

lemma tools_call_known_tool:
  assumes "req_method request = ''POST''"
    and "req_json request = Inr requestBody"
    and "get_prop requestBody ''method'' = Inr (JStr ''tools/call'')"
    and "get_prop requestBody ''id'' = Inr rid"
    and "get_prop requestBody ''params'' = Inr params"
    and "get_prop params ''name'' = Inr (JStr ''catalysishub_graphql'')"
  obtains args where "get_prop params ''arguments'' = Inr args"
    and "fetch up request =
           (if truthy rid then call_catalysishub_graphql up rid args else (empty_response 204, []))"
proof -
  from assms(6) obtain kvs where "params = JObj kvs"
    by (rule get_prop_defined_obj) simp
  with assms that show thesis
    by (simp add: router_defs)
qed

text \<open>
  A \<^verbatim>\<open>tools/call\<close> of the known tool that reached the upstream had a truthy id, and its
  answer is the one the branch of the known tool builds from the forwarder's result.
\<close>

lemma known_tool_called:
  assumes "req_method request = ''POST''"
    and "req_json request = Inr requestBody"
    and "get_prop requestBody ''method'' = Inr (JStr ''tools/call'')"
    and "get_prop requestBody ''id'' = Inr rid"
    and "get_prop requestBody ''params'' = Inr params"
    and "get_prop params ''name'' = Inr (JStr ''catalysishub_graphql'')"
    and "snd (fetch up request) = [call]"
  obtains args q v where "truthy rid" and "get_prop params ''arguments'' = Inr args"
    and "get_prop args ''query'' = Inr q" and "get_prop args ''variables'' = Inr v"
    and "call = graphql_call q v"
    and "fetch up request = call_catalysishub_graphql up rid args"
    and "tool_try up args = executeGraphQLQuery up q v"
proof -
  from assms(1-6) obtain args where args: "get_prop params ''arguments'' = Inr args"
    and f: "fetch up request =
           (if truthy rid then call_catalysishub_graphql up rid args else (empty_response 204, []))"
    by (rule tools_call_known_tool)
  from f assms(7) have t: "truthy rid"
    by (cases "truthy rid") simp_all
  with f have f': "fetch up request = call_catalysishub_graphql up rid args"
    by simp
  with assms(7) have "snd (tool_try up args) = [call]"
    by (simp add: call_catalysishub_graphql_calls)
  then obtain q v where "get_prop args ''query'' = Inr q" and "get_prop args ''variables'' = Inr v"
    and "call = graphql_call q v" and "tool_try up args = executeGraphQLQuery up q v"
    by (rule tool_try_called)
  with t args f' that show thesis
    by blast
qed



text \<open>
  Claim C2, as the handler computes it. For every \<^verbatim>\<open>tools/call\<close> of the known tool that
  reached the upstream: when \<^verbatim>\<open>fetch\<close> rejects with an instance of \<^verbatim>\<open>Error\<close> (a network
  failure), and when the upstream answers with a status that is not ok, the router still
  answers with status 200 and the JSON-RPC success envelope carrying the request's id; the
  text of its content is the serialization of \<^verbatim>\<open>{errors:[{message: m}]}\<close>, and \<open>m\<close> contains
  \<^verbatim>\<open>HTTP Request Error\<close>. The upstream's body does not occur in the answer. The
  upstream's status code does: in the second case \<open>m\<close> ends with
  \<^verbatim>\<open>HTTP error! status: \<close> and the decimal digits of the code.
\<close>

theorem upstream_failure_is_reported_as_result:
  assumes \<open>req_method request = ''POST''\<close> and \<open>req_json request = Inr requestBody\<close>
    and \<open>get_prop requestBody ''method'' = Inr (JStr ''tools/call'')\<close>
    and \<open>get_prop requestBody ''id'' = Inr rid\<close>
    and \<open>get_prop requestBody ''params'' = Inr params\<close>
    and \<open>get_prop params ''name'' = Inr (JStr ''catalysishub_graphql'')\<close>
    and \<open>snd (fetch up request) = [call]\<close>
  shows \<open>(\<forall>e. up call = Rejects e \<and> instanceof_Error e \<longrightarrow>
            fst (fetch up request) =
              json_response 200
                (JObj [(''jsonrpc'', JStr ''2.0''), (''id'', rid),
                       (''result'', JObj [(''content'', JArr [JObj [(''type'', JStr ''text''),
                          (''text'', JSON_stringify
                             (JObj [(''errors'', JArr [JObj [(''message'', JStr
                                (''HTTP Request Error connecting to Catalysis Hub: '' @
                                 describe_error e))]])]))]])])]))
       \<and> (\<forall>r. up call = Resolves r \<and> \<not> up_ok r \<longrightarrow>
            fst (fetch up request) =
              json_response 200
                (JObj [(''jsonrpc'', JStr ''2.0''), (''id'', rid),
                       (''result'', JObj [(''content'', JArr [JObj [(''type'', JStr ''text''),
                          (''text'', JSON_stringify
                             (JObj [(''errors'', JArr [JObj [(''message'', JStr
                                (''HTTP Request Error connecting to Catalysis Hub: '' @
                                 ''HTTP error! status: '' @ digits (up_status r)))]])]))]])])]))
       \<and> (\<forall>d. sublist ''HTTP Request Error''
                 (''HTTP Request Error connecting to Catalysis Hub: '' @ d))
       \<and> (\<forall>obj. res_status (json_response 200 obj) = 200)\<close>
proof (intro conjI allI impI)
  from assms obtain args q v where c: "call = graphql_call q v"
    and f: "fetch up request = call_catalysishub_graphql up rid args"
    and t: "tool_try up args = executeGraphQLQuery up q v"
    by (rule known_tool_called)
  {
    fix e assume "up call = Rejects e \<and> instanceof_Error e"
    with c have "fst (executeGraphQLQuery up q v) =
        Inr (errors_value (''HTTP Request Error connecting to Catalysis Hub: '' @ describe_error e))"
      by (simp add: executeGraphQLQuery_def executeGraphQLQuery_try_def executeGraphQLQuery_catch_Inr)
    with f t show \<open>fst (fetch up request) =
              json_response 200
                (JObj [(''jsonrpc'', JStr ''2.0''), (''id'', rid),
                       (''result'', JObj [(''content'', JArr [JObj [(''type'', JStr ''text''),
                          (''text'', JSON_stringify
                             (JObj [(''errors'', JArr [JObj [(''message'', JStr
                                (''HTTP Request Error connecting to Catalysis Hub: '' @
                                 describe_error e))]])]))]])])])\<close>
      by (cases "executeGraphQLQuery up q v")
         (simp add: call_catalysishub_graphql_def result_envelope_def text_content_def
            errors_value_def)
  }
  {
    fix r assume "up call = Resolves r \<and> \<not> up_ok r"
    with c have "fst (executeGraphQLQuery up q v) =
        Inr (errors_value (''HTTP Request Error connecting to Catalysis Hub: '' @
                 ''HTTP error! status: '' @ digits (up_status r)))"
      by (simp add: executeGraphQLQuery_def executeGraphQLQuery_try_def executeGraphQLQuery_catch_Inr)
    with f t show \<open>fst (fetch up request) =
              json_response 200
                (JObj [(''jsonrpc'', JStr ''2.0''), (''id'', rid),
                       (''result'', JObj [(''content'', JArr [JObj [(''type'', JStr ''text''),
                          (''text'', JSON_stringify
                             (JObj [(''errors'', JArr [JObj [(''message'', JStr
                                (''HTTP Request Error connecting to Catalysis Hub: '' @
                                 ''HTTP error! status: '' @ digits (up_status r)))]])]))]])])])\<close>
      by (cases "executeGraphQLQuery up q v")
         (simp add: call_catalysishub_graphql_def result_envelope_def text_content_def
            errors_value_def)
  }
  {
    fix d :: string
    have "''HTTP Request Error connecting to Catalysis Hub: '' @ d =
          [] @ ''HTTP Request Error'' @ ('' connecting to Catalysis Hub: '' @ d)"
      by simp
    then show "sublist ''HTTP Request Error'' (''HTTP Request Error connecting to Catalysis Hub: '' @ d)"
      unfolding sublist_def by blast
  }
  {
    fix obj
    show "res_status (json_response 200 obj) = 200"
      by (simp add: json_response_def)
  }
qed

text \<open>
  Witness for C2: the scenario request against an unreachable upstream and against an
  upstream answering 500.
\<close>

theorem upstream_failure_is_reported_as_result_witness:
  \<open>snd (fetch upstream_unreachable scenario_request) =
      [graphql_call (JStr ''query{__schema{queryType{name}}}'') JUndefined]
   \<and> fst (fetch upstream_unreachable scenario_request) =
      json_response 200
        (JObj [(''jsonrpc'', JStr ''2.0''), (''id'', JNum 1),
               (''result'', JObj [(''content'', JArr [JObj [(''type'', JStr ''text''),
                  (''text'', JSON_stringify
                     (JObj [(''errors'', JArr [JObj [(''message'', JStr
                        ''HTTP Request Error connecting to Catalysis Hub: fetch failed'')]])]))]])])])
   \<and> snd (fetch (upstream_status 500) scenario_request) =
      [graphql_call (JStr ''query{__schema{queryType{name}}}'') JUndefined]
   \<and> fst (fetch (upstream_status 500) scenario_request) =
      json_response 200
        (JObj [(''jsonrpc'', JStr ''2.0''), (''id'', JNum 1),
               (''result'', JObj [(''content'', JArr [JObj [(''type'', JStr ''text''),
                  (''text'', JSON_stringify
                     (JObj [(''errors'', JArr [JObj [(''message'', JStr
                        ''HTTP Request Error connecting to Catalysis Hub: HTTP error! status: 500'')]])]))]])])])\<close>
proof -
  have called: \<open>snd (fetch upstream_unreachable scenario_request) =
      [graphql_call (JStr ''query{__schema{queryType{name}}}'') JUndefined]\<close>
    \<open>snd (fetch (upstream_status 500) scenario_request) =
      [graphql_call (JStr ''query{__schema{queryType{name}}}'') JUndefined]\<close>
    by (simp_all add: scenario_defs router_defs call_catalysishub_graphql_def tool_try_def
          query_preview_def executeGraphQLQuery_def executeGraphQLQuery_try_def
          executeGraphQLQuery_catch_def upstream_unreachable_def upstream_status_def)
  have request: \<open>req_method scenario_request = ''POST''\<close>
    \<open>req_json scenario_request = Inr scenario_body\<close>
    \<open>get_prop scenario_body ''method'' = Inr (JStr ''tools/call'')\<close>
    \<open>get_prop scenario_body ''id'' = Inr (JNum 1)\<close>
    \<open>get_prop scenario_body ''params'' = Inr scenario_params\<close>
    \<open>get_prop scenario_params ''name'' = Inr (JStr ''catalysishub_graphql'')\<close>
    by (simp_all add: scenario_request_def scenario_body_def scenario_params_def post_def)
  have d: "digits 500 = ''500''"
    by (simp add: digits.simps digit_char_def)
  have a: \<open>fst (fetch upstream_unreachable scenario_request) =
      json_response 200
        (JObj [(''jsonrpc'', JStr ''2.0''), (''id'', JNum 1),
               (''result'', JObj [(''content'', JArr [JObj [(''type'', JStr ''text''),
                  (''text'', JSON_stringify
                     (JObj [(''errors'', JArr [JObj [(''message'', JStr
                        ''HTTP Request Error connecting to Catalysis Hub: fetch failed'')]])]))]])])])\<close>
    using upstream_failure_is_reported_as_result
            [OF request called(1), THEN conjunct1, rule_format,
             of "ErrorInst ''TypeError'' ''fetch failed''"]
    by (simp add: upstream_unreachable_def)
  have b: \<open>fst (fetch (upstream_status 500) scenario_request) =
      json_response 200
        (JObj [(''jsonrpc'', JStr ''2.0''), (''id'', JNum 1),
               (''result'', JObj [(''content'', JArr [JObj [(''type'', JStr ''text''),
                  (''text'', JSON_stringify
                     (JObj [(''errors'', JArr [JObj [(''message'', JStr
                        ''HTTP Request Error connecting to Catalysis Hub: HTTP error! status: 500'')]])]))]])])])\<close>
    using upstream_failure_is_reported_as_result
            [OF request called(2), THEN conjunct2, THEN conjunct1, rule_format,
             of "\<lparr> up_status = 500, up_ok = False, up_json = Inr (JStr ''Service Unavailable'') \<rparr>"]
    by (simp add: upstream_status_def d)
  from called a b show ?thesis
    by simp
qed

text \<open>
  Counterexample to C2 as stated: the upstream's status code is propagated. Against an
  upstream answering 503 the text handed to the caller names 503, against an upstream
  answering 404 it names 404, and the two answers differ.
\<close>

theorem upstream_status_reaches_the_caller:
  \<open>fst (fetch (upstream_status 503) scenario_request) =
     \<lparr> res_status = 200, res_headers = corsHeaders,
       res_body = Some (''{"jsonrpc":"2.0","id":1,"result":{"content":[{"type":"text","text":"{'' @
         [CHR 0x5C] @ ''"errors'' @ [CHR 0x5C] @ ''":[{'' @
         [CHR 0x5C] @ ''"message'' @ [CHR 0x5C] @ ''":'' @
         [CHR 0x5C] @ ''"HTTP Request Error connecting to Catalysis Hub: HTTP error! status: 503'' @
         [CHR 0x5C] @ ''"}]}"}]}}'') \<rparr>
   \<and> fst (fetch (upstream_status 404) scenario_request) =
     \<lparr> res_status = 200, res_headers = corsHeaders,
       res_body = Some (''{"jsonrpc":"2.0","id":1,"result":{"content":[{"type":"text","text":"{'' @
         [CHR 0x5C] @ ''"errors'' @ [CHR 0x5C] @ ''":[{'' @
         [CHR 0x5C] @ ''"message'' @ [CHR 0x5C] @ ''":'' @
         [CHR 0x5C] @ ''"HTTP Request Error connecting to Catalysis Hub: HTTP error! status: 404'' @
         [CHR 0x5C] @ ''"}]}"}]}}'') \<rparr>
   \<and> fst (fetch (upstream_status 503) scenario_request) \<noteq>
       fst (fetch (upstream_status 404) scenario_request)\<close>
proof -
  have a: \<open>fst (fetch (upstream_status 503) scenario_request) =
     \<lparr> res_status = 200, res_headers = corsHeaders,
       res_body = Some (''{"jsonrpc":"2.0","id":1,"result":{"content":[{"type":"text","text":"{'' @
         [CHR 0x5C] @ ''"errors'' @ [CHR 0x5C] @ ''":[{'' @
         [CHR 0x5C] @ ''"message'' @ [CHR 0x5C] @ ''":'' @
         [CHR 0x5C] @ ''"HTTP Request Error connecting to Catalysis Hub: HTTP error! status: 503'' @
         [CHR 0x5C] @ ''"}]}"}]}}'') \<rparr>\<close>
    by (simp add: scenario_defs upstream_status_def router_defs tool_defs ser_defs)
  have b: \<open>fst (fetch (upstream_status 404) scenario_request) =
     \<lparr> res_status = 200, res_headers = corsHeaders,
       res_body = Some (''{"jsonrpc":"2.0","id":1,"result":{"content":[{"type":"text","text":"{'' @
         [CHR 0x5C] @ ''"errors'' @ [CHR 0x5C] @ ''":[{'' @
         [CHR 0x5C] @ ''"message'' @ [CHR 0x5C] @ ''":'' @
         [CHR 0x5C] @ ''"HTTP Request Error connecting to Catalysis Hub: HTTP error! status: 404'' @
         [CHR 0x5C] @ ''"}]}"}]}}'') \<rparr>\<close>
    by (simp add: scenario_defs upstream_status_def router_defs tool_defs ser_defs)
  from a b show ?thesis
    by simp
qed

text \<open>
  Claim C10, as the handler computes it. For every \<^verbatim>\<open>tools/call\<close> request with a truthy
  id, the name \<^verbatim>\<open>catalysishub_graphql\<close> and an arguments object whose \<^verbatim>\<open>query\<close> is a
  string, or is absent or \<^verbatim>\<open>null\<close>, the handler returns the status 200 and the success
  envelope whatever the upstream does: \<^verbatim>\<open>executeGraphQLQuery\<close> returns a value on every
  path. For any arguments, the inner \<^verbatim>\<open>try\<close> throws exactly when the text of its log
  line cannot be built.
\<close>

theorem known_tool_string_query_always_succeeds:
  assumes \<open>req_method request = ''POST''\<close> and \<open>req_json request = Inr requestBody\<close>
    and \<open>get_prop requestBody ''method'' = Inr (JStr ''tools/call'')\<close>
    and \<open>get_prop requestBody ''id'' = Inr rid\<close> and \<open>truthy rid\<close>
    and \<open>get_prop requestBody ''params'' = Inr params\<close>
    and \<open>get_prop params ''name'' = Inr (JStr ''catalysishub_graphql'')\<close>
    and \<open>get_prop params ''arguments'' = Inr (JObj arguments)\<close>
    and \<open>get_prop (JObj arguments) ''query'' = Inr q\<close>
    and \<open>nullish q \<or> q = JStr s\<close>
    and \<open>get_prop (JObj arguments) ''variables'' = Inr v\<close>
  shows \<open>(\<exists>result. fst (executeGraphQLQuery up q v) = Inr result
            \<and> fetch up request =
                (json_response 200
                   (JObj [(''jsonrpc'', JStr ''2.0''), (''id'', rid),
                          (''result'', JObj [(''content'',
                             JArr [JObj [(''type'', JStr ''text''),
                                         (''text'', JSON_stringify result)]])])]),
                 [graphql_call q v]))
       \<and> res_status (fst (fetch up request)) = 200
       \<and> (\<forall>args e. fst (tool_try up args) = Inl e \<longleftrightarrow> query_preview args = Inl e)\<close>
proof -
  from assms(1-4,6,7) obtain args where "get_prop params ''arguments'' = Inr args"
    and "fetch up request =
           (if truthy rid then call_catalysishub_graphql up rid args else (empty_response 204, []))"
    by (rule tools_call_known_tool)
  with assms(5,8) have f: "fetch up request = call_catalysishub_graphql up rid (JObj arguments)"
    by simp
  from assms(9,10) obtain p where "query_preview (JObj arguments) = Inr p"
    by (auto simp add: query_preview_def bind_exn_def)
  with assms(9,11) have t: "tool_try up (JObj arguments) = executeGraphQLQuery up q v"
    by (simp add: tool_try_def)
  obtain result where r: "fst (executeGraphQLQuery up q v) = Inr result"
    using executeGraphQLQuery_total by blast
  then have "executeGraphQLQuery up q v = (Inr result, [graphql_call q v])"
    by (simp add: executeGraphQLQuery_def)
  with f t have g: \<open>fetch up request =
                (json_response 200
                   (JObj [(''jsonrpc'', JStr ''2.0''), (''id'', rid),
                          (''result'', JObj [(''content'',
                             JArr [JObj [(''type'', JStr ''text''),
                                         (''text'', JSON_stringify result)]])])]),
                 [graphql_call q v])\<close>
    by (simp add: call_catalysishub_graphql_def result_envelope_def text_content_def)
  then have "res_status (fst (fetch up request)) = 200"
    by (simp add: json_response_def)
  with r g show ?thesis
    by (auto simp add: tool_try_throws_iff)
qed

text \<open>
  Witness for C10: the scenario request against an unreachable upstream is answered with
  status 200 after one upstream call.
\<close>

theorem known_tool_string_query_always_succeeds_witness:
  \<open>(\<exists>result. fst (executeGraphQLQuery upstream_unreachable
                     (JStr ''query{__schema{queryType{name}}}'') JUndefined) = Inr result
        \<and> fetch upstream_unreachable scenario_request =
            (json_response 200
               (JObj [(''jsonrpc'', JStr ''2.0''), (''id'', JNum 1),
                      (''result'', JObj [(''content'',
                         JArr [JObj [(''type'', JStr ''text''),
                                     (''text'', JSON_stringify result)]])])]),
             [graphql_call (JStr ''query{__schema{queryType{name}}}'') JUndefined]))
   \<and> res_status (fst (fetch upstream_unreachable scenario_request)) = 200\<close>
  using known_tool_string_query_always_succeeds
    [of scenario_request scenario_body "JNum 1" scenario_params
        "[(''query'', JStr ''query{__schema{queryType{name}}}'')]"
        "JStr ''query{__schema{queryType{name}}}''"
        "''query{__schema{queryType{name}}}''"
        JUndefined upstream_unreachable]
  by (simp add: scenario_request_def scenario_body_def scenario_params_def post_def)

text \<open>
  Counterexample to C10 as stated. With the arguments \<^verbatim>\<open>{"query":5}\<close> the inner
  \<^verbatim>\<open>catch\<close> is reached and the answer is the status 500 with code -32603; without an id
  the request is a notification and the answer is 204.
\<close>

theorem inner_catch_is_reachable:
  \<open>fetch scenario_upstream (post query_number_body) =
     (\<lparr> res_status = 500, res_headers = corsHeaders,
        res_body = Some ''{"jsonrpc":"2.0","id":1,"error":{"code":-32603,"message":"Tool execution failed: args.query?.slice is not a function"}}'' \<rparr>,
      [])
   \<and> fetch scenario_upstream (post known_tool_no_id) =
     (\<lparr> res_status = 204, res_headers = corsHeaders, res_body = None \<rparr>, [])\<close>
  by (simp add: query_number_body_def query_number_params_def known_tool_no_id_def
        scenario_params_def post_def router_defs tool_defs ser_defs empty_response_def)

end
